theory Spec2Isabelle
  imports Complex_Main "HOL-Library.Product_Lexorder" "HOL-Library.Multiset"
begin

section \<open>Veilborn rules engine: data model (engine/models.py)\<close>

text \<open>
  The engine is Python. Unbounded Python integers are \<open>int\<close>. The three type
  multipliers 1.5, 1.0 and 0.75 are dyadic, so products with an integer are exact in
  double precision (for attack values far below \<open>2^53\<close>); they are modelled as
  rationals. Python's \<open>int(x)\<close> on a float truncates towards zero.
\<close>

datatype CardType = SPECTER | REVENANT | PHANTOM | BEHEMOTH

datatype Rarity = COMMON | RARE | EPIC | LEGENDARY

datatype GamePhase = DRAW | MANA | PLACEMENT | REVEAL | RESOLVE | CLEANUP | MATCH_OVER

datatype Row = FRONT | BACK

datatype Player = ONE | TWO

text \<open>\<open>TYPE_MATCHUP[attacker][defender]\<close>: the outer key attacks the inner key.\<close>

fun TYPE_MATCHUP :: "CardType \<Rightarrow> CardType \<Rightarrow> rat" where
  "TYPE_MATCHUP SPECTER SPECTER = 1"
| "TYPE_MATCHUP SPECTER REVENANT = 3 / 4"
| "TYPE_MATCHUP SPECTER PHANTOM = 1"
| "TYPE_MATCHUP SPECTER BEHEMOTH = 3 / 2"
| "TYPE_MATCHUP REVENANT SPECTER = 3 / 2"
| "TYPE_MATCHUP REVENANT REVENANT = 1"
| "TYPE_MATCHUP REVENANT PHANTOM = 3 / 4"
| "TYPE_MATCHUP REVENANT BEHEMOTH = 1"
| "TYPE_MATCHUP PHANTOM SPECTER = 1"
| "TYPE_MATCHUP PHANTOM REVENANT = 3 / 2"
| "TYPE_MATCHUP PHANTOM PHANTOM = 1"
| "TYPE_MATCHUP PHANTOM BEHEMOTH = 3 / 4"
| "TYPE_MATCHUP BEHEMOTH SPECTER = 3 / 4"
| "TYPE_MATCHUP BEHEMOTH REVENANT = 1"
| "TYPE_MATCHUP BEHEMOTH PHANTOM = 3 / 2"
| "TYPE_MATCHUP BEHEMOTH BEHEMOTH = 1"

text \<open>The enum values \<open>CardType.X.value\<close>, as written into combat events.\<close>

fun type_value :: "CardType \<Rightarrow> string" where
  "type_value SPECTER = ''Specter''"
| "type_value REVENANT = ''Revenant''"
| "type_value PHANTOM = ''Phantom''"
| "type_value BEHEMOTH = ''Behemoth''"

datatype AbilityTrigger = ON_ATTACK | ON_DEATH | ON_SURVIVE_ROUND | PASSIVE

datatype AbilityEffect = LIFESTEAL | THORNS | LAST_STAND | GHOST_STEP | VEIL_ECHO | ARMOR

record Ability =
  trigger :: AbilityTrigger
  effect :: AbilityEffect
  ability_value :: rat
  description :: string

record CardDefinition =
  def_id :: string
  name :: string
  card_type :: CardType
  rarity :: Rarity
  base_attack :: int
  base_defense :: int
  speed :: int
  mana_cost :: int
  ability :: "Ability option"
  lore :: string
  art_url :: string

definition xp_threshold :: "int \<Rightarrow> int" where
  "xp_threshold lvl =
     (if lvl = 1 then 100 else if lvl = 2 then 250 else if lvl = 3 then 500
      else if lvl = 4 then 1000 else 9999)"

record CardInstance =
  instance_id :: string
  defn :: CardDefinition
  inst_owner :: Player
  level :: int
  xp :: int
  consecutive_losses :: int
  is_dormant :: bool

definition attack :: "CardInstance \<Rightarrow> int" where
  "attack ci = base_attack (defn ci) + (level ci - 1)"

definition max_defense :: "CardInstance \<Rightarrow> int" where
  "max_defense ci = base_defense (defn ci) + (level ci - 1) * 2"

text \<open>\<open>level_up\<close> and \<open>add_xp\<close> mutate the instance; the Boolean result of the
  source (whether the card levelled up) is never read by the engine and is dropped.\<close>

definition level_up :: "CardInstance \<Rightarrow> CardInstance" where
  "level_up ci =
     (let threshold = xp_threshold (level ci)
      in if xp ci \<ge> threshold \<and> level ci < 5
         then ci\<lparr>level := level ci + 1, xp := xp ci - threshold\<rparr>
         else ci)"

definition add_xp :: "CardInstance \<Rightarrow> int \<Rightarrow> CardInstance" where
  "add_xp ci amount = level_up (ci\<lparr>xp := xp ci + amount\<rparr>)"

text \<open>
  Card instances are mutable objects shared by reference between hands, decks and
  board cards. They live in a store: an address is the identity of a Python object, and
  hands, decks and board cards hold addresses.
\<close>

type_synonym addr = nat

type_synonym store = "addr \<Rightarrow> CardInstance"

record BoardCard =
  inst :: addr
  current_hp :: int
  col :: int
  row :: Row
  owner :: Player
  face_down :: bool
  has_attacked :: bool
  position_bonus_attack :: int

definition is_alive :: "BoardCard \<Rightarrow> bool" where
  "is_alive c = (current_hp c > 0)"

definition effective_attack :: "store \<Rightarrow> BoardCard \<Rightarrow> int" where
  "effective_attack h c = attack (h (inst c)) + position_bonus_attack c"

text \<open>
  \<open>Board.cells\<close> is a Python dict, which keeps insertion order and has one entry per
  key: an association list. A board card is a mutable object too; it is reached through
  its dict key, so the key serves as its identity during a round.
\<close>

type_synonym cell_key = "int \<times> Row \<times> Player"

type_synonym Board = "(cell_key \<times> BoardCard) list"

datatype error = ValueError | StopIteration | IndexError

definition key_of :: "BoardCard \<Rightarrow> cell_key" where
  "key_of c = (col c, row c, owner c)"

definition place :: "Board \<Rightarrow> BoardCard \<Rightarrow> error + Board" where
  "place b c = (if key_of c \<in> set (map fst b) then Inl ValueError else Inr (b @ [(key_of c, c)]))"

definition get_cell :: "Board \<Rightarrow> int \<Rightarrow> Row \<Rightarrow> Player \<Rightarrow> BoardCard option" where
  "get_cell b cl rw ow = map_of b (cl, rw, ow)"

definition remove_cell :: "Board \<Rightarrow> int \<Rightarrow> Row \<Rightarrow> Player \<Rightarrow> Board" where
  "remove_cell b cl rw ow = filter (\<lambda>(k, c). k \<noteq> (cl, rw, ow)) b"

definition all_cards :: "Board \<Rightarrow> (cell_key \<times> BoardCard) list" where
  "all_cards b = b"

definition cards_for :: "Board \<Rightarrow> Player \<Rightarrow> (cell_key \<times> BoardCard) list" where
  "cards_for b ow = filter (\<lambda>(k, c). owner c = ow) b"

definition front_row_for :: "Board \<Rightarrow> Player \<Rightarrow> (cell_key \<times> BoardCard) list" where
  "front_row_for b ow = filter (\<lambda>(k, c). owner c = ow \<and> row c = FRONT) b"

definition back_row_for :: "Board \<Rightarrow> Player \<Rightarrow> (cell_key \<times> BoardCard) list" where
  "back_row_for b ow = filter (\<lambda>(k, c). owner c = ow \<and> row c = BACK) b"

record PlayerState =
  player :: Player
  hand :: "addr list"
  deck :: "addr list"
  mana :: int
  veil_surge_used :: bool
  score :: int
  hp :: int

text \<open>The two ability texts of a combat event, with the values the source formats
  into them.\<close>

datatype ability_text = Drained string int | Death_echo string int

record CombatEvent =
  ev_order :: int
  attacker_name :: string
  attacker_type :: string
  attacker_level :: int
  attacker_owner :: Player
  defender_name :: string
  defender_type :: string
  defender_level :: int
  defender_owner :: Player
  type_multiplier :: rat
  raw_attack :: int
  damage_dealt :: int
  position_bonus :: int
  defender_destroyed :: bool
  ability_triggered :: "string option"
  ability_effect_description :: "ability_text option"

record RoundResult =
  round_number :: int
  events :: "CombatEvent list"
  veil_collapse :: bool
  p1_surviving_defense :: int
  p2_surviving_defense :: int
  round_winner :: "Player option"
  round_points_awarded :: int
  match_score :: "int \<times> int"
  result_match_winner :: "Player option"
  flanking_applied :: "Player option"

text \<open>The field \<open>heap\<close> is the store of card instances; the other fields are those
  of the source.\<close>

record GameState =
  game_id :: string
  player1 :: PlayerState
  player2 :: PlayerState
  board :: Board
  current_round :: int
  phase :: GamePhase
  round_history :: "RoundResult list"
  match_winner :: "Player option"
  heap :: store

definition get_player_state :: "GameState \<Rightarrow> Player \<Rightarrow> PlayerState" where
  "get_player_state s p = (if p = ONE then player1 s else player2 s)"

definition set_player_state :: "GameState \<Rightarrow> Player \<Rightarrow> PlayerState \<Rightarrow> GameState" where
  "set_player_state s p ps = (if p = ONE then s\<lparr>player1 := ps\<rparr> else s\<lparr>player2 := ps\<rparr>)"

definition opponent :: "Player \<Rightarrow> Player" where
  "opponent p = (if p = ONE then TWO else ONE)"

section \<open>Constants (engine/rules.py)\<close>

definition FLANKING_THRESHOLD :: nat where "FLANKING_THRESHOLD = 3"
definition FLANKING_BONUS :: int where "FLANKING_BONUS = 2"
definition COLUMN_PRESSURE_BONUS :: int where "COLUMN_PRESSURE_BONUS = 1"
definition MANA_PER_TURN :: int where "MANA_PER_TURN = 1"
definition MANA_CAP :: int where "MANA_CAP = 8"
definition VEIL_SURGE_MAX :: int where "VEIL_SURGE_MAX = 3"
definition ROUNDS_PER_MATCH :: int where "ROUNDS_PER_MATCH = 5"
definition WIN_SCORE :: int where "WIN_SCORE = 3"
definition DORMANCY_LOSS_THRESHOLD :: int where "DORMANCY_LOSS_THRESHOLD = 3"

section \<open>Python helpers\<close>

text \<open>\<open>int(x)\<close> on a float: truncation towards zero.\<close>

definition py_int :: "rat \<Rightarrow> int" where
  "py_int x = (if 0 \<le> x then \<lfloor>x\<rfloor> else \<lceil>x\<rceil>)"

text \<open>The slices \<open>xs[:n]\<close> and \<open>xs[n:]\<close>: a negative \<open>n\<close> counts from the end of
  the list.\<close>

definition slice_to :: "'a list \<Rightarrow> int \<Rightarrow> 'a list" where
  "slice_to xs n = (if 0 \<le> n then take (nat n) xs else take (nat (int (length xs) + n)) xs)"

definition slice_from :: "'a list \<Rightarrow> int \<Rightarrow> 'a list" where
  "slice_from xs n = (if 0 \<le> n then drop (nat n) xs else drop (nat (int (length xs) + n)) xs)"

text \<open>\<open>list.remove(x)\<close> deletes the first element that is \<open>x\<close> or equals \<open>x\<close>
  (dataclass equality compares all fields), and raises when there is none.\<close>

fun list_remove :: "store \<Rightarrow> addr list \<Rightarrow> addr \<Rightarrow> error + addr list" where
  "list_remove h [] a = Inl ValueError"
| "list_remove h (x # xs) a =
     (if x = a \<or> h x = h a then Inr xs
      else (case list_remove h xs a of Inl e \<Rightarrow> Inl e | Inr ys \<Rightarrow> Inr (x # ys)))"

section \<open>Phase: Draw\<close>

definition draw_player :: "int \<Rightarrow> PlayerState \<Rightarrow> PlayerState" where
  "draw_player draw_to ps =
     (let needed = draw_to - int (length (hand ps));
          drawn = slice_to (deck ps) needed
      in ps\<lparr>deck := slice_from (deck ps) needed, hand := hand ps @ drawn\<rparr>)"

definition phase_draw :: "GameState \<Rightarrow> int \<Rightarrow> GameState" where
  "phase_draw s draw_to =
     s\<lparr>player1 := draw_player draw_to (player1 s),
       player2 := draw_player draw_to (player2 s),
       phase := MANA\<rparr>"

section \<open>Phase: Mana\<close>

definition mana_player :: "PlayerState \<Rightarrow> PlayerState" where
  "mana_player ps = ps\<lparr>mana := min (mana ps + MANA_PER_TURN) MANA_CAP\<rparr>"

definition phase_mana :: "GameState \<Rightarrow> GameState" where
  "phase_mana s =
     s\<lparr>player1 := mana_player (player1 s), player2 := mana_player (player2 s),
       phase := PLACEMENT\<rparr>"

section \<open>Phase: Placement\<close>

text \<open>One entry of a placement batch:
  \<^verbatim>\<open>{"card_instance_id": str, "col": int, "row": Row}\<close>.\<close>

record Placement =
  card_instance_id :: string
  p_col :: int
  p_row :: Row

text \<open>The rejection messages of \<open>validate_placement\<close>, with the values formatted
  into them.\<close>

datatype rejection =
    Not_in_hand string
  | Dormant string
  | Wrong_row Player Row
  | Column_out_of_range int
  | Duplicate_cell int Row
  | Cell_occupied int Row
  | Insufficient_mana int int

datatype validation = Accepted | Rejected rejection

definition valid_rows_for :: "Player \<Rightarrow> Row list" where
  "valid_rows_for p = [FRONT, BACK]"

text \<open>\<open>next((c for c in ps.hand if c.instance_id == cid), None)\<close>\<close>

definition find_in_hand :: "store \<Rightarrow> addr list \<Rightarrow> string \<Rightarrow> addr option" where
  "find_in_hand h hnd cid = find (\<lambda>a. instance_id (h a) = cid) hnd"

text \<open>The loop of \<open>validate_placement\<close>: the accumulators are \<open>total_mana\<close> and
  \<open>placed_cells\<close>; the result is the first rejection or the total mana cost.\<close>

fun validate_loop ::
  "store \<Rightarrow> PlayerState \<Rightarrow> Board \<Rightarrow> Player \<Rightarrow> Placement list \<Rightarrow> int \<Rightarrow> (int \<times> Row) set
   \<Rightarrow> rejection + int" where
  "validate_loop h ps b pl [] total_mana placed_cells = Inr total_mana"
| "validate_loop h ps b pl (p # rest) total_mana placed_cells =
     (case find_in_hand h (hand ps) (card_instance_id p) of
        None \<Rightarrow> Inl (Not_in_hand (card_instance_id p))
      | Some a \<Rightarrow>
          if is_dormant (h a) then Inl (Dormant (name (defn (h a))))
          else if p_row p \<notin> set (valid_rows_for pl) then Inl (Wrong_row pl (p_row p))
          else if \<not> (0 \<le> p_col p \<and> p_col p \<le> 3) then Inl (Column_out_of_range (p_col p))
          else if (p_col p, p_row p) \<in> placed_cells then Inl (Duplicate_cell (p_col p) (p_row p))
          else if get_cell b (p_col p) (p_row p) pl \<noteq> None
            then Inl (Cell_occupied (p_col p) (p_row p))
          else validate_loop h ps b pl rest (total_mana + mana_cost (defn (h a)))
                 (insert (p_col p, p_row p) placed_cells))"

definition validate_placement :: "GameState \<Rightarrow> Player \<Rightarrow> Placement list \<Rightarrow> validation" where
  "validate_placement s pl placements =
     (let ps = get_player_state s pl
      in case validate_loop (heap s) ps (board s) pl placements 0 {} of
           Inl r \<Rightarrow> Rejected r
         | Inr total_mana \<Rightarrow>
             (let available_mana = mana ps
              in if total_mana > available_mana
                      \<and> (veil_surge_used ps \<or> total_mana - available_mana > VEIL_SURGE_MAX)
                 then Rejected (Insufficient_mana total_mana available_mana)
                 else Accepted))"

text \<open>The loop of \<open>apply_placement\<close> mutates the board and the hand as it goes; when it
  raises, the state as mutated so far is what the caller is left with, so the error
  carries it.\<close>

fun apply_loop ::
  "Player \<Rightarrow> Placement list \<Rightarrow> GameState \<Rightarrow> int \<Rightarrow> (error \<times> GameState) + (GameState \<times> int)" where
  "apply_loop pl [] s total_mana = Inr (s, total_mana)"
| "apply_loop pl (p # rest) s total_mana =
     (let ps = get_player_state s pl
      in case find_in_hand (heap s) (hand ps) (card_instance_id p) of
           None \<Rightarrow> Inl (StopIteration, s)
         | Some a \<Rightarrow>
             (let board_card = \<lparr>inst = a, current_hp = max_defense (heap s a),
                    col = p_col p, row = p_row p, owner = pl, face_down = True,
                    has_attacked = False, position_bonus_attack = 0\<rparr>
              in case place (board s) board_card of
                   Inl e \<Rightarrow> Inl (e, s)
                 | Inr b' \<Rightarrow>
                     (case list_remove (heap s) (hand ps) a of
                        Inl e \<Rightarrow> Inl (e, s\<lparr>board := b'\<rparr>)
                      | Inr hand' \<Rightarrow>
                          apply_loop pl rest
                            (set_player_state (s\<lparr>board := b'\<rparr>) pl (ps\<lparr>hand := hand'\<rparr>))
                            (total_mana + mana_cost (defn (heap s a))))))"

definition apply_placement ::
  "GameState \<Rightarrow> Player \<Rightarrow> Placement list \<Rightarrow> (error \<times> GameState) + GameState" where
  "apply_placement s pl placements =
     (case apply_loop pl placements s 0 of
        Inl e \<Rightarrow> Inl e
      | Inr (s', total_mana) \<Rightarrow>
          (let ps = get_player_state s' pl
           in Inr (set_player_state s' pl
                (if total_mana > mana ps
                 then ps\<lparr>mana := - (total_mana - mana ps), veil_surge_used := True\<rparr>
                 else ps\<lparr>mana := mana ps - total_mana\<rparr>))))"

section \<open>Phase: Reveal\<close>

definition phase_reveal :: "GameState \<Rightarrow> GameState" where
  "phase_reveal s =
     s\<lparr>board := map (\<lambda>(k, c). (k, c\<lparr>face_down := False\<rparr>)) (board s), phase := RESOLVE\<rparr>"

section \<open>Targeting\<close>

text \<open>Back-row protection: the local function \<open>is_targetable\<close> of \<open>_find_target\<close>.\<close>

definition is_targetable :: "Board \<Rightarrow> BoardCard \<Rightarrow> bool" where
  "is_targetable b c =
     (if row c = BACK then get_cell b (col c) FRONT (owner c) = None else True)"

text \<open>An object of the source is always truthy, so \<open>if direct and ...\<close> tests for
  \<open>None\<close>. The result is the dict entry of the chosen card.\<close>

definition target_key :: "int \<Rightarrow> (cell_key \<times> BoardCard) \<Rightarrow> int \<times> int" where
  "target_key attacker_col e = (\<bar>col (snd e) - attacker_col\<bar>, current_hp (snd e))"

definition find_target :: "BoardCard \<Rightarrow> Board \<Rightarrow> (cell_key \<times> BoardCard) option" where
  "find_target attacker b =
     (let opp = (if owner attacker = ONE then TWO else ONE);
          direct = get_cell b (col attacker) FRONT opp;
          back_direct = get_cell b (col attacker) BACK opp;
          enemies = filter (\<lambda>(k, c). is_alive c \<and> is_targetable b c) (cards_for b opp);
          priority3 = (case sort_key (target_key (col attacker)) enemies of
                         [] \<Rightarrow> None | e # _ \<Rightarrow> Some e);
          priority2 = (case back_direct of
                         None \<Rightarrow> priority3
                       | Some bd \<Rightarrow>
                           if is_alive bd \<and> is_targetable b bd
                           then Some ((col attacker, BACK, opp), bd) else priority3)
      in case direct of
           None \<Rightarrow> priority2
         | Some d \<Rightarrow>
             if is_alive d \<and> is_targetable b d
             then Some ((col attacker, FRONT, opp), d) else priority2)"

section \<open>Position bonuses\<close>

definition add_bonus :: "int \<Rightarrow> BoardCard \<Rightarrow> BoardCard" where
  "add_bonus n c = c\<lparr>position_bonus_attack := position_bonus_attack c + n\<rparr>"

text \<open>\<open>len({c.col for c in front})\<close>: the number of distinct columns.\<close>

definition front_cols :: "Board \<Rightarrow> Player \<Rightarrow> nat" where
  "front_cols b p = length (remdups (map (\<lambda>(k, c). col c) (front_row_for b p)))"

definition flank_player :: "Player \<Rightarrow> Board \<times> Player option \<Rightarrow> Board \<times> Player option" where
  "flank_player p bf =
     (let b = fst bf; opp = (if p = ONE then TWO else ONE)
      in if front_cols b p \<ge> FLANKING_THRESHOLD \<and> front_cols b opp \<le> 2
         then (map (\<lambda>(k, c). if owner c = p \<and> row c = FRONT
                                then (k, add_bonus FLANKING_BONUS c) else (k, c)) b,
               Some p)
         else bf)"

definition apply_flanking :: "Board \<Rightarrow> Board \<times> Player option" where
  "apply_flanking b = flank_player TWO (flank_player ONE (b, None))"

definition pressure_player :: "store \<Rightarrow> Player \<Rightarrow> Board \<Rightarrow> Board" where
  "pressure_player h p b =
     (let opp = (if p = ONE then TWO else ONE)
      in map (\<lambda>(k, c).
           if owner c = p \<and> row c = FRONT
           then (case get_cell b (col c) FRONT opp of
                   None \<Rightarrow> (k, c)
                 | Some opp_card \<Rightarrow>
                     if TYPE_MATCHUP (card_type (defn (h (inst c))))
                          (card_type (defn (h (inst opp_card)))) = 3 / 2
                     then (k, add_bonus COLUMN_PRESSURE_BONUS c) else (k, c))
           else (k, c)) b)"

definition apply_column_pressure :: "store \<Rightarrow> Board \<Rightarrow> Board" where
  "apply_column_pressure h b = pressure_player h TWO (pressure_player h ONE b)"

definition apply_veil_collapse :: "store \<Rightarrow> Board \<Rightarrow> Board" where
  "apply_veil_collapse h b = map (\<lambda>(k, c). (k, add_bonus (attack (h (inst c)) div 2) c)) b"

section \<open>Phase: Resolve\<close>

text \<open>\<open>sorted(..., key = (speed, effective_attack), reverse = True)\<close> is stable: cards
  with equal keys keep their board order. That is the stable ascending sort on the
  negated key. The attack order is the list of dict keys of the sorted cards.\<close>

definition order_key :: "store \<Rightarrow> (cell_key \<times> BoardCard) \<Rightarrow> int \<times> int" where
  "order_key h e = (- speed (defn (h (inst (snd e)))), - effective_attack h (snd e))"

definition attack_order :: "store \<Rightarrow> Board \<Rightarrow> cell_key list" where
  "attack_order h b = map fst (sort_key (order_key h) (all_cards b))"

definition update_card :: "Board \<Rightarrow> cell_key \<Rightarrow> (BoardCard \<Rightarrow> BoardCard) \<Rightarrow> Board" where
  "update_card b k f = map (\<lambda>(k', c). if k' = k then (k', f c) else (k', c)) b"

text \<open>The damage of one hit (Step 4 of the loop body).\<close>

definition hit_damage :: "store \<Rightarrow> BoardCard \<Rightarrow> BoardCard \<Rightarrow> int" where
  "hit_damage h attacker target =
     (let multiplier = TYPE_MATCHUP (card_type (defn (h (inst attacker))))
                         (card_type (defn (h (inst target))));
          raw = effective_attack h attacker;
          damage = py_int (of_int raw * multiplier)
      in case ability (defn (h (inst target))) of
           None \<Rightarrow> damage
         | Some ab \<Rightarrow>
             if effect ab = ARMOR then max 0 (damage - py_int (ability_value ab))
             else damage)"

text \<open>The state of the attack loop: the board (hit points change), the event log, the
  event counter, and \<open>dead_cards\<close>, kept as the cell of each dead card (its \<open>col\<close>,
  \<open>row\<close> and \<open>owner\<close>, which is all that Step 5 reads).\<close>

record loop_state =
  l_board :: Board
  l_events :: "CombatEvent list"
  l_event_order :: int
  l_dead :: "cell_key list"

definition strike :: "store \<Rightarrow> cell_key \<Rightarrow> BoardCard \<Rightarrow> cell_key \<Rightarrow> BoardCard \<Rightarrow> loop_state \<Rightarrow> loop_state" where
  "strike h ak attacker tk target ls =
     (let adef = defn (h (inst attacker)); tdef = defn (h (inst target));
          multiplier = TYPE_MATCHUP (card_type adef) (card_type tdef);
          raw = effective_attack h attacker;
          damage = hit_damage h attacker target;
          b1 = update_card (l_board ls) tk (\<lambda>c. c\<lparr>current_hp := current_hp c - damage\<rparr>);
          event_order = l_event_order ls + 1;
          lifesteal = (case ability adef of
                         None \<Rightarrow> False
                       | Some ab \<Rightarrow> trigger ab = ON_ATTACK \<and> effect ab = LIFESTEAL);
          heal = (case ability adef of
                    None \<Rightarrow> 0 | Some ab \<Rightarrow> py_int (of_int damage * ability_value ab));
          b2 = (if lifesteal
                then update_card b1 ak
                       (\<lambda>c. c\<lparr>current_hp := min (current_hp c + heal) (max_defense (h (inst c)))\<rparr>)
                else b1);
          destroyed = (case map_of b2 tk of None \<Rightarrow> False | Some t \<Rightarrow> \<not> is_alive t);
          veil_echo = (destroyed \<and>
                       (case ability tdef of
                          None \<Rightarrow> False
                        | Some ab \<Rightarrow> trigger ab = ON_DEATH \<and> effect ab = VEIL_ECHO));
          echo_damage = attack (h (inst target)) div 2;
          b3 = (if veil_echo
                then update_card b2 ak (\<lambda>c. c\<lparr>current_hp := current_hp c - echo_damage\<rparr>)
                else b2);
          ev = \<lparr>ev_order = event_order,
                attacker_name = name adef,
                attacker_type = type_value (card_type adef),
                attacker_level = level (h (inst attacker)),
                attacker_owner = owner attacker,
                defender_name = name tdef,
                defender_type = type_value (card_type tdef),
                defender_level = level (h (inst target)),
                defender_owner = owner target,
                type_multiplier = multiplier,
                raw_attack = raw,
                damage_dealt = damage,
                position_bonus = position_bonus_attack attacker,
                defender_destroyed = destroyed,
                ability_triggered =
                  (if veil_echo then Some ''Veil Echo''
                   else if lifesteal then Some ''Lifesteal'' else None),
                ability_effect_description =
                  (if veil_echo then Some (Death_echo (name tdef) echo_damage)
                   else if lifesteal then Some (Drained (name adef) heal) else None)\<rparr>
      in \<lparr>l_board = b3, l_events = l_events ls @ [ev], l_event_order = event_order,
          l_dead = (if destroyed then l_dead ls @ [key_of target] else l_dead ls)\<rparr>)"

text \<open>One iteration of the attack loop, for the card stored under key \<open>ak\<close>.\<close>

definition attack_step :: "store \<Rightarrow> cell_key \<Rightarrow> loop_state \<Rightarrow> loop_state" where
  "attack_step h ak ls =
     (case map_of (l_board ls) ak of
        None \<Rightarrow> ls
      | Some attacker \<Rightarrow>
          if \<not> is_alive attacker then ls
          else (case find_target attacker (l_board ls) of
                  None \<Rightarrow> ls
                | Some (tk, target) \<Rightarrow> strike h ak attacker tk target ls))"

fun attack_loop :: "store \<Rightarrow> cell_key list \<Rightarrow> loop_state \<Rightarrow> loop_state" where
  "attack_loop h [] ls = ls"
| "attack_loop h (ak # rest) ls = attack_loop h rest (attack_step h ak ls)"

fun remove_dead :: "cell_key list \<Rightarrow> Board \<Rightarrow> Board" where
  "remove_dead [] b = b"
| "remove_dead ((cl, rw, ow) # rest) b = remove_dead rest (remove_cell b cl rw ow)"

definition surviving_defense :: "Board \<Rightarrow> Player \<Rightarrow> int" where
  "surviving_defense b p = sum_list (map (\<lambda>(k, c). current_hp c) (cards_for b p))"

text \<open>Step 6: the round winner and the points, from the board after removal.\<close>

definition score_round :: "Board \<Rightarrow> Player option \<times> int" where
  "score_round b =
     (let p1_def = surviving_defense b ONE;
          p2_def = surviving_defense b TWO;
          p2_wiped = (length (cards_for b TWO) = 0);
          p1_wiped = (length (cards_for b ONE) = 0)
      in if p1_wiped \<and> p2_wiped then (None, 0)
         else if p2_wiped \<and> \<not> p1_wiped then (Some ONE, 2)
         else if p1_wiped \<and> \<not> p2_wiped then (Some TWO, 2)
         else if p1_def > p2_def then (Some ONE, 1)
         else if p2_def > p1_def then (Some TWO, 1)
         else (None, 0))"

text \<open>Step 7: the match winner, from the scores after the round.\<close>

definition check_match_winner :: "int \<Rightarrow> int \<Rightarrow> int \<Rightarrow> Player option" where
  "check_match_winner score1 score2 rnd =
     (if score1 \<ge> WIN_SCORE then Some ONE
      else if score2 \<ge> WIN_SCORE then Some TWO
      else if rnd \<ge> ROUNDS_PER_MATCH then
        (if score1 > score2 then Some ONE
         else if score2 > score1 then Some TWO
         else None)
      else None)"

text \<open>Steps 1 and 2: the board with the position bonuses applied, and the player who
  got the flanking bonus.\<close>

definition prepare_board :: "GameState \<Rightarrow> Board \<times> Player option" where
  "prepare_board s =
     (let fl = apply_flanking (board s);
          b1 = apply_column_pressure (heap s) (fst fl)
      in (if current_round s = ROUNDS_PER_MATCH then apply_veil_collapse (heap s) b1 else b1,
          snd fl))"

text \<open>Steps 3 and 4: the attack loop over the sorted cards.\<close>

definition combat :: "GameState \<Rightarrow> loop_state" where
  "combat s =
     (let b2 = fst (prepare_board s)
      in attack_loop (heap s) (attack_order (heap s) b2)
           \<lparr>l_board = b2, l_events = [], l_event_order = 0, l_dead = []\<rparr>)"

definition phase_resolve :: "GameState \<Rightarrow> GameState \<times> RoundResult" where
  "phase_resolve s =
     (let veil = (current_round s = ROUNDS_PER_MATCH);
          flanking_player = snd (prepare_board s);
          ls = combat s;
          b3 = remove_dead (l_dead ls) (l_board ls);
          p1_def = surviving_defense b3 ONE;
          p2_def = surviving_defense b3 TWO;
          rw = score_round b3;
          s1 = (case fst rw of
                  None \<Rightarrow> s
                | Some w \<Rightarrow>
                    set_player_state s w
                      ((get_player_state s w)\<lparr>score := score (get_player_state s w) + snd rw\<rparr>));
          mw = check_match_winner (score (player1 s1)) (score (player2 s1)) (current_round s);
          result = \<lparr>round_number = current_round s,
                    events = l_events ls,
                    veil_collapse = veil,
                    p1_surviving_defense = p1_def,
                    p2_surviving_defense = p2_def,
                    round_winner = fst rw,
                    round_points_awarded = snd rw,
                    match_score = (score (player1 s1), score (player2 s1)),
                    result_match_winner = mw,
                    flanking_applied = flanking_player\<rparr>
      in (s1\<lparr>board := b3, match_winner := mw,
             round_history := round_history s1 @ [result],
             phase := (if mw \<noteq> None then MATCH_OVER else CLEANUP)\<rparr>,
          result))"

section \<open>Phase: Cleanup\<close>

definition store_add_xp :: "store \<Rightarrow> addr \<Rightarrow> int \<Rightarrow> store" where
  "store_add_xp h a amount = h(a := add_xp (h a) amount)"

text \<open>XP of the cards still on the board: the damage of the events that carry the
  card's name and owner as attacker, plus 10 when the name is among the surviving names
  (computed before the loop).\<close>

definition survivor_xp :: "CombatEvent list \<Rightarrow> string set \<Rightarrow> store \<Rightarrow> BoardCard \<Rightarrow> int" where
  "survivor_xp evs surviving_names h c =
     sum_list (map damage_dealt
       (filter (\<lambda>e. attacker_name e = name (defn (h (inst c))) \<and> attacker_owner e = owner c) evs))
     + (if name (defn (h (inst c))) \<in> surviving_names then 10 else 0)"

fun survivors_loop :: "CombatEvent list \<Rightarrow> string set \<Rightarrow> (cell_key \<times> BoardCard) list \<Rightarrow> store \<Rightarrow> store" where
  "survivors_loop evs sn [] h = h"
| "survivors_loop evs sn ((k, c) # rest) h =
     survivors_loop evs sn rest (store_add_xp h (inst c) (survivor_xp evs sn h c))"

text \<open>XP of destroyed cards: for every event that destroyed its defender, every
  instance in \<open>deck + hand\<close> of either player that carries the defender's name.\<close>

fun destroyed_xp_cards :: "CombatEvent list \<Rightarrow> string \<Rightarrow> addr list \<Rightarrow> store \<Rightarrow> store" where
  "destroyed_xp_cards evs dname [] h = h"
| "destroyed_xp_cards evs dname (a # rest) h =
     destroyed_xp_cards evs dname rest
       (if name (defn (h a)) = dname
        then store_add_xp h a
               (sum_list (map damage_dealt (filter (\<lambda>e. attacker_name e = dname) evs)) div 2)
        else h)"

fun destroyed_xp_loop :: "CombatEvent list \<Rightarrow> addr list \<Rightarrow> CombatEvent list \<Rightarrow> store \<Rightarrow> store" where
  "destroyed_xp_loop evs pool [] h = h"
| "destroyed_xp_loop evs pool (e # rest) h =
     destroyed_xp_loop evs pool rest
       (if defender_destroyed e then destroyed_xp_cards evs (defender_name e) pool h else h)"

fun dormancy_loop :: "string set \<Rightarrow> addr list \<Rightarrow> store \<Rightarrow> store" where
  "dormancy_loop destroyed_names [] h = h"
| "dormancy_loop destroyed_names (a # rest) h =
     dormancy_loop destroyed_names rest
       (if name (defn (h a)) \<in> destroyed_names
        then (let ci = (h a)\<lparr>consecutive_losses := consecutive_losses (h a) + 1\<rparr>
              in h(a := (if consecutive_losses ci \<ge> DORMANCY_LOSS_THRESHOLD
                         then ci\<lparr>is_dormant := True\<rparr> else ci)))
        else h(a := (h a)\<lparr>consecutive_losses := 0\<rparr>))"

definition return_to_hand :: "Board \<Rightarrow> PlayerState \<Rightarrow> PlayerState" where
  "return_to_hand b ps = ps\<lparr>hand := hand ps @ map (\<lambda>(k, c). inst c) (cards_for b (player ps))\<rparr>"

definition clear_debt :: "PlayerState \<Rightarrow> PlayerState" where
  "clear_debt ps = (if mana ps < 0 then ps\<lparr>mana := 0\<rparr> else ps)"

definition phase_cleanup :: "GameState \<Rightarrow> error + GameState" where
  "phase_cleanup s =
     (if round_history s = [] then Inl IndexError
      else
        (let b = board s;
             last_result = last (round_history s);
             evs = events last_result;
             destroyed_names = defender_name ` set (filter defender_destroyed evs);
             surviving_cards = all_cards b;
             surviving_names = (\<lambda>(k, c). name (defn (heap s (inst c)))) ` set surviving_cards;
             h1 = survivors_loop evs surviving_names surviving_cards (heap s);
             pool = deck (player1 s) @ hand (player1 s) @ deck (player2 s) @ hand (player2 s);
             h2 = destroyed_xp_loop evs pool evs h1;
             h3 = (case round_winner last_result of
                     None \<Rightarrow> h2
                   | Some w \<Rightarrow>
                       (let loser_ps = get_player_state s (opponent w)
                        in dormancy_loop destroyed_names (deck loser_ps @ hand loser_ps) h2))
         in Inr (s\<lparr>player1 := clear_debt (return_to_hand b (player1 s)),
                   player2 := clear_debt (return_to_hand b (player2 s)),
                   board := [],
                   current_round := current_round s + 1,
                   phase := DRAW,
                   heap := h3\<rparr>)))"

section \<open>The advantage cycle\<close>

text \<open>The advantage cycle: each type beats exactly one other type.\<close>

fun beats :: "CardType \<Rightarrow> CardType" where
  "beats SPECTER = BEHEMOTH"
| "beats BEHEMOTH = PHANTOM"
| "beats PHANTOM = REVENANT"
| "beats REVENANT = SPECTER"

section \<open>Runs of the engine\<close>

text \<open>The instances a state refers to: hands, decks and board cards.\<close>

definition pool :: "GameState \<Rightarrow> addr list" where
  "pool s = deck (player1 s) @ hand (player1 s) @ deck (player2 s) @ hand (player2 s)"


text \<open>One call of a phase function by the driver. A placement that raises leaves the
  state as mutated so far.\<close>

inductive step :: "GameState \<Rightarrow> GameState \<Rightarrow> bool" where
  step_draw: "step s (phase_draw s n)"
| step_mana: "step s (phase_mana s)"
| step_place: "apply_placement s pl batch = Inr s' \<Longrightarrow> step s s'"
| step_place_raise: "apply_placement s pl batch = Inl (e, s') \<Longrightarrow> step s s'"
| step_reveal: "step s (phase_reveal s)"
| step_resolve: "step s (fst (phase_resolve s))"
| step_cleanup: "phase_cleanup s = Inr s' \<Longrightarrow> step s s'"


section \<open>Notions used in the properties\<close>




text \<open>The board without its hit points: what stays fixed during the attack loop.\<close>

definition erase_hp :: "Board \<Rightarrow> Board" where
  "erase_hp b = map (\<lambda>(k, c). (k, c\<lparr>current_hp := 0\<rparr>)) b"





section \<open>Example cards and states\<close>

definition ex_def :: "string \<Rightarrow> CardType \<Rightarrow> int \<Rightarrow> int \<Rightarrow> int \<Rightarrow> int \<Rightarrow> Ability option \<Rightarrow> CardDefinition" where
  "ex_def n t a d sp m ab =
     \<lparr>def_id = n, name = n, card_type = t, rarity = COMMON, base_attack = a, base_defense = d,
      speed = sp, mana_cost = m, ability = ab, lore = [], art_url = []\<rparr>"

definition ex_inst :: "string \<Rightarrow> CardDefinition \<Rightarrow> Player \<Rightarrow> CardInstance" where
  "ex_inst i d p =
     \<lparr>instance_id = i, defn = d, inst_owner = p, level = 1, xp = 0, consecutive_losses = 0,
      is_dormant = False\<rparr>"

definition ex_player :: "Player \<Rightarrow> addr list \<Rightarrow> addr list \<Rightarrow> int \<Rightarrow> PlayerState" where
  "ex_player p hnd dck m =
     \<lparr>player = p, hand = hnd, deck = dck, mana = m, veil_surge_used = False, score = 0, hp = 20\<rparr>"

definition ex_state :: "PlayerState \<Rightarrow> PlayerState \<Rightarrow> Board \<Rightarrow> store \<Rightarrow> GameState" where
  "ex_state p1 p2 b h =
     \<lparr>game_id = [], player1 = p1, player2 = p2, board = b, current_round = 1, phase = DRAW,
      round_history = [], match_winner = None, heap = h\<rparr>"

text \<open>Cards of the starter set (engine/cards.py).\<close>

definition ashling :: CardDefinition where
  "ashling = ex_def ''Ashling'' SPECTER 5 5 7 2 None"

definition duskwarden :: CardDefinition where
  "duskwarden = ex_def ''Duskwarden'' REVENANT 6 12 2 3 None"

definition bonecrag :: CardDefinition where
  "bonecrag = ex_def ''Bonecrag'' BEHEMOTH 9 14 2 5 None"


text \<open>A store with an Ashling of player two at address 1 and a Duskwarden of player one
  everywhere else.\<close>

definition ex_store :: store where
  "ex_store = (\<lambda>a. ex_inst ''d'' duskwarden ONE)(1 := ex_inst ''a'' ashling TWO)"

text \<open>Player one holds six cards and has three in the deck.\<close>

definition oversized_hand_state :: GameState where
  "oversized_hand_state =
     ex_state (ex_player ONE [0, 2, 3, 4, 5, 6] [7, 8, 9] 3) (ex_player TWO [] [1] 3) [] ex_store"

text \<open>Player one holds the single card at address 0 (instance id \<open>d\<close>, mana cost 3)
  and has 8 mana; the board is empty.\<close>

definition one_card_state :: GameState where
  "one_card_state = ex_state (ex_player ONE [0] [] 8) (ex_player TWO [1] [] 8) [] ex_store"

text \<open>Round 3, player one leads 2 to 0 and has the only card on the board.\<close>

definition wipe_state :: GameState where
  "wipe_state =
     (ex_state ((ex_player ONE [] [] 3)\<lparr>score := 2\<rparr>) (ex_player TWO [] [] 3)
        [((0, FRONT, ONE),
          \<lparr>inst = 0, current_hp = 12, col = 0, row = FRONT, owner = ONE, face_down = False,
           has_attacked = False, position_bonus_attack = 0\<rparr>)] ex_store)\<lparr>current_round := 3\<rparr>"


text \<open>Round 5 with an empty board and no points on either side.\<close>

definition final_round_state :: GameState where
  "final_round_state =
     (ex_state (ex_player ONE [] [] 3) (ex_player TWO [] [] 3) [] ex_store)\<lparr>current_round := 5\<rparr>"

text \<open>Scenario D: player one has 3 mana and holds a Bonecrag (cost 5, instance id \<open>b\<close>)
  and a Duskwarden (cost 3, instance id \<open>d\<close>).\<close>

definition surge_state :: GameState where
  "surge_state =
     ex_state (ex_player ONE [3, 0] [] 3) (ex_player TWO [] [] 3) []
       (ex_store(3 := ex_inst ''b'' bonecrag ONE))"

definition surge_batch :: "Placement list" where
  "surge_batch = [\<lparr>card_instance_id = ''b'', p_col = 0, p_row = FRONT\<rparr>]"

definition second_batch :: "Placement list" where
  "second_batch = [\<lparr>card_instance_id = ''d'', p_col = 1, p_row = FRONT\<rparr>]"

text \<open>Player one has Duskwardens in the front row of columns 0 and 1; player two has an
  Ashling in the front row of column 0 and a Duskwarden behind it.\<close>

definition protect_state :: GameState where
  "protect_state =
     ex_state (ex_player ONE [] [] 3) (ex_player TWO [] [] 3)
       [((0, FRONT, ONE),
         \<lparr>inst = 0, current_hp = 12, col = 0, row = FRONT, owner = ONE, face_down = False,
          has_attacked = False, position_bonus_attack = 0\<rparr>),
        ((1, FRONT, ONE),
         \<lparr>inst = 2, current_hp = 12, col = 1, row = FRONT, owner = ONE, face_down = False,
          has_attacked = False, position_bonus_attack = 0\<rparr>),
        ((0, FRONT, TWO),
         \<lparr>inst = 1, current_hp = 5, col = 0, row = FRONT, owner = TWO, face_down = False,
          has_attacked = False, position_bonus_attack = 0\<rparr>),
        ((0, BACK, TWO),
         \<lparr>inst = 4, current_hp = 12, col = 0, row = BACK, owner = TWO, face_down = False,
          has_attacked = False, position_bonus_attack = 0\<rparr>)]
       ex_store"

text \<open>The board of that round after its first two attacks: the Ashling has hit the
  Duskwarden in front of it and has been destroyed by it.\<close>

definition dead_front_board :: Board where
  "dead_front_board =
     l_board (attack_loop (heap protect_state)
       (take 2 (attack_order (heap protect_state) (fst (prepare_board protect_state))))
       \<lparr>l_board = fst (prepare_board protect_state), l_events = [], l_event_order = 0,
        l_dead = []\<rparr>)"





text \<open>A round played from \<open>one_card_state\<close>: player one places the Duskwarden and
  player two the Ashling, both in the front row of column 0; then reveal, resolve and
  cleanup.\<close>

definition xp_placed :: GameState where
  "xp_placed =
     projr (apply_placement
       (projr (apply_placement one_card_state ONE
          [\<lparr>card_instance_id = ''d'', p_col = 0, p_row = FRONT\<rparr>]))
       TWO [\<lparr>card_instance_id = ''a'', p_col = 0, p_row = FRONT\<rparr>])"

definition xp_revealed :: GameState where
  "xp_revealed = phase_reveal xp_placed"

definition xp_cleaned :: GameState where
  "xp_cleaned = projr (phase_cleanup (fst (phase_resolve xp_revealed)))"

section \<open>Properties of the type matchup table\<close>

text \<open>
  C1 (as stated, refuted). The claim says that for every pair of distinct types exactly
  one direction is 1.5 and the reverse is 0.75. Specter and Phantom are distinct and
  are neutral (1.0) in both directions.
\<close>

theorem matchup_distinct_pair_counterexample:
  "SPECTER \<noteq> PHANTOM \<and> TYPE_MATCHUP SPECTER PHANTOM = 1 \<and> TYPE_MATCHUP PHANTOM SPECTER = 1
   \<and> TYPE_MATCHUP SPECTER PHANTOM \<noteq> 3 / 2 \<and> TYPE_MATCHUP PHANTOM SPECTER \<noteq> 3 / 2"
  by simp

text \<open>
  C1 (amended). Self-matchups are 1.0. The table is the 4-cycle
  Specter, Behemoth, Phantom, Revenant: \<open>TYPE_MATCHUP a b\<close> is 1.5 exactly when \<open>a\<close>
  beats \<open>b\<close>, 0.75 exactly when \<open>b\<close> beats \<open>a\<close>, and 1.0 otherwise; so a direction
  is 1.5 exactly when the reverse is 0.75, never both directions are 1.5, and the two
  pairs of types opposite in the cycle are 1.0 in both directions.
\<close>

theorem matchup_table_cycle:
  "TYPE_MATCHUP x x = 1
   \<and> (TYPE_MATCHUP a b = 3 / 2 \<longleftrightarrow> beats a = b)
   \<and> (TYPE_MATCHUP a b = 3 / 4 \<longleftrightarrow> beats b = a)
   \<and> (TYPE_MATCHUP a b = 3 / 2 \<longleftrightarrow> TYPE_MATCHUP b a = 3 / 4)
   \<and> \<not> (TYPE_MATCHUP a b = 3 / 2 \<and> TYPE_MATCHUP b a = 3 / 2)
   \<and> TYPE_MATCHUP a b \<in> {3 / 2, 1, 3 / 4}
   \<and> TYPE_MATCHUP SPECTER PHANTOM = 1 \<and> TYPE_MATCHUP PHANTOM SPECTER = 1
   \<and> TYPE_MATCHUP REVENANT BEHEMOTH = 1 \<and> TYPE_MATCHUP BEHEMOTH REVENANT = 1"
  by (cases x; cases a; cases b; simp)

section \<open>Draw\<close>

lemma slice_to_nonneg: "0 \<le> n \<Longrightarrow> slice_to xs n = take (nat n) xs"
  by (simp add: slice_to_def)

lemma slice_from_nonneg: "0 \<le> n \<Longrightarrow> slice_from xs n = drop (nat n) xs"
  by (simp add: slice_from_def)

text \<open>A hand of at most \<open>n\<close> cards is topped up to \<open>n\<close> from the front of the deck, or
  takes the whole deck when it is short.\<close>

lemma draw_player_tops_up:
  assumes "int (length (hand ps)) \<le> n"
  shows "hand (draw_player n ps) = hand ps @ take (nat (n - int (length (hand ps)))) (deck ps)"
    and "deck (draw_player n ps) = drop (nat (n - int (length (hand ps)))) (deck ps)"
    and "int (length (hand (draw_player n ps))) = min n (int (length (hand ps)) + int (length (deck ps)))"
  using assms by (auto simp: draw_player_def Let_def slice_to_nonneg slice_from_nonneg min_def)

text \<open>
  C2 (the code departs from the claim). With six cards in hand and three in the deck,
  \<open>needed\<close> is \<open>-1\<close>, and the slices \<open>deck[:-1]\<close> and \<open>deck[-1:]\<close> move all but the
  last card of the deck into the hand; the claim (and the docstring, "draw until hand
  size is draw_to") has such a hand draw nothing.
\<close>

theorem phase_draw_oversized_hand:
  "length (hand (player1 oversized_hand_state)) = 6
   \<and> hand (player1 (phase_draw oversized_hand_state 5)) = [0, 2, 3, 4, 5, 6, 7, 8]
   \<and> deck (player1 (phase_draw oversized_hand_state 5)) = [9]"
  by (simp add: phase_draw_def draw_player_def oversized_hand_state_def ex_state_def ex_player_def slice_to_def slice_from_def Let_def)

section \<open>Placement\<close>

lemma get_set_player_state [simp]:
  "get_player_state (set_player_state s p ps) p = ps"
  by (simp add: get_player_state_def set_player_state_def)

lemma get_set_player_state_other [simp]:
  "p \<noteq> q \<Longrightarrow> get_player_state (set_player_state s p ps) q = get_player_state s q"
  by (cases p; cases q; simp add: get_player_state_def set_player_state_def)

lemma set_player_state_fields [simp]:
  "heap (set_player_state s p ps) = heap s"
  "board (set_player_state s p ps) = board s"
  "current_round (set_player_state s p ps) = current_round s"
  "round_history (set_player_state s p ps) = round_history s"
  "phase (set_player_state s p ps) = phase s"
  "match_winner (set_player_state s p ps) = match_winner s"
  by (simp_all add: set_player_state_def)

lemma get_player_state_upd [simp]:
  "get_player_state (s\<lparr>board := b\<rparr>) p = get_player_state s p"
  by (simp add: get_player_state_def)

lemma list_remove_remove1:
  assumes "a \<in> set xs" and "\<forall>x\<in>set xs. h x = h a \<longrightarrow> x = a"
  shows "list_remove h xs a = Inr (remove1 a xs)"
  using assms by (induction xs) auto

lemma find_in_hand_Some:
  "find_in_hand h xs cid = Some a \<Longrightarrow> a \<in> set xs \<and> instance_id (h a) = cid"
  by (auto simp: find_in_hand_def find_Some_iff)

lemma find_in_hand_None:
  "find_in_hand h xs cid = None \<longleftrightarrow> (\<forall>x\<in>set xs. instance_id (h x) \<noteq> cid)"
  by (auto simp: find_in_hand_def find_None_iff)

lemma place_free:
  "get_cell b (col c) (row c) (owner c) = None \<Longrightarrow> place b c = Inr (b @ [(key_of c, c)])"
  by (simp add: place_def get_cell_def key_of_def map_of_eq_None_iff)

lemma apply_loop_next:
  assumes "find_in_hand (heap s) (hand (get_player_state s pl)) (card_instance_id p) = Some a"
    and "place (board s)
           \<lparr>inst = a, current_hp = max_defense (heap s a), col = p_col p, row = p_row p,
            owner = pl, face_down = True, has_attacked = False, position_bonus_attack = 0\<rparr>
         = Inr b'"
    and "list_remove (heap s) (hand (get_player_state s pl)) a = Inr hand'"
  shows "apply_loop pl (p # rest) s t =
         apply_loop pl rest
           (set_player_state (s\<lparr>board := b'\<rparr>) pl ((get_player_state s pl)\<lparr>hand := hand'\<rparr>))
           (t + mana_cost (defn (heap s a)))"
  using assms by (simp add: Let_def)

lemma apply_loop_stop:
  assumes "find_in_hand (heap s) (hand (get_player_state s pl)) (card_instance_id p) = None"
  shows "apply_loop pl (p # rest) s t = Inl (StopIteration, s)"
  using assms by (simp add: Let_def)

text \<open>
  C10. A batch that names the same card instance for two distinct free cells passes
  \<open>validate_placement\<close> (which checks duplicate cells, not duplicate cards), and
  \<open>apply_placement\<close> raises \<open>StopIteration\<close> at the second entry, after the first
  entry has put the card on the board and taken it out of the hand.
\<close>

theorem duplicate_card_batch:
  assumes found: "find_in_hand (heap s) (hand (get_player_state s pl)) cid = Some a"
    and uniq: "\<forall>x\<in>set (hand (get_player_state s pl)). instance_id (heap s x) = cid \<longrightarrow> x = a"
    and dist: "distinct (hand (get_player_state s pl))"
    and awake: "\<not> is_dormant (heap s a)"
    and c1: "0 \<le> c1" "c1 \<le> 3" and c2: "0 \<le> c2" "c2 \<le> 3"
    and cells: "(c1, r1) \<noteq> (c2, r2)"
    and free1: "get_cell (board s) c1 r1 pl = None"
    and free2: "get_cell (board s) c2 r2 pl = None"
    and afford: "2 * mana_cost (defn (heap s a)) \<le> mana (get_player_state s pl)"
  shows "validate_placement s pl
           [\<lparr>card_instance_id = cid, p_col = c1, p_row = r1\<rparr>,
            \<lparr>card_instance_id = cid, p_col = c2, p_row = r2\<rparr>] = Accepted
       \<and> apply_placement s pl
           [\<lparr>card_instance_id = cid, p_col = c1, p_row = r1\<rparr>,
            \<lparr>card_instance_id = cid, p_col = c2, p_row = r2\<rparr>]
         = Inl (StopIteration,
             set_player_state
               (s\<lparr>board := board s @
                    [((c1, r1, pl),
                      \<lparr>inst = a, current_hp = max_defense (heap s a), col = c1, row = r1,
                       owner = pl, face_down = True, has_attacked = False,
                       position_bonus_attack = 0\<rparr>)]\<rparr>)
               pl ((get_player_state s pl)\<lparr>hand := remove1 a (hand (get_player_state s pl))\<rparr>))"
proof -
  let ?ps = "get_player_state s pl"
  have mem: "a \<in> set (hand ?ps)" and idc: "instance_id (heap s a) = cid"
    using find_in_hand_Some [OF found] by simp_all
  have rows: "r1 \<in> set (valid_rows_for pl)" "r2 \<in> set (valid_rows_for pl)"
    by (cases r1; simp add: valid_rows_for_def) (cases r2; simp add: valid_rows_for_def)
  have v: "validate_loop (heap s) ?ps (board s) pl
       [\<lparr>card_instance_id = cid, p_col = c1, p_row = r1\<rparr>,
        \<lparr>card_instance_id = cid, p_col = c2, p_row = r2\<rparr>] 0 {}
       = Inr (2 * mana_cost (defn (heap s a)))"
    using found awake c1 c2 cells free1 free2 rows by auto
  have accepted: "validate_placement s pl
       [\<lparr>card_instance_id = cid, p_col = c1, p_row = r1\<rparr>,
        \<lparr>card_instance_id = cid, p_col = c2, p_row = r2\<rparr>] = Accepted"
    unfolding validate_placement_def Let_def v using afford by simp
  have rem: "list_remove (heap s) (hand ?ps) a = Inr (remove1 a (hand ?ps))"
  proof (rule list_remove_remove1 [OF mem])
    show "\<forall>x\<in>set (hand ?ps). heap s x = heap s a \<longrightarrow> x = a"
    proof (intro ballI impI)
      fix x assume "x \<in> set (hand ?ps)" and e: "heap s x = heap s a"
      moreover from e idc have "instance_id (heap s x) = cid" by simp
      ultimately show "x = a" using uniq by blast
    qed
  qed
  have gone: "find_in_hand (heap s) (remove1 a (hand ?ps)) cid = None"
    unfolding find_in_hand_None
  proof
    fix x assume x: "x \<in> set (remove1 a (hand ?ps))"
    then have "x \<in> set (hand ?ps)" and "x \<noteq> a"
      using dist by (auto simp: set_remove1_eq)
    with uniq show "instance_id (heap s x) \<noteq> cid" by blast
  qed
  let ?card = "\<lparr>inst = a, current_hp = max_defense (heap s a), col = c1, row = r1,
                 owner = pl, face_down = True, has_attacked = False,
                 position_bonus_attack = 0\<rparr>"
  have pl1: "place (board s) ?card = Inr (board s @ [((c1, r1, pl), ?card)])"
    using place_free [of "board s" ?card] free1 by (simp add: key_of_def)
  have "apply_loop pl
       [\<lparr>card_instance_id = cid, p_col = c1, p_row = r1\<rparr>,
        \<lparr>card_instance_id = cid, p_col = c2, p_row = r2\<rparr>] s 0
     = Inl (StopIteration,
         set_player_state (s\<lparr>board := board s @ [((c1, r1, pl), ?card)]\<rparr>) pl
           (?ps\<lparr>hand := remove1 a (hand ?ps)\<rparr>))"
    by (subst apply_loop_next [where a = a and b' = "board s @ [((c1, r1, pl), ?card)]"
          and hand' = "remove1 a (hand ?ps)"])
       (simp_all add: found pl1 rem apply_loop_stop gone)
  then show ?thesis using accepted by (simp add: apply_placement_def)
qed

theorem duplicate_card_batch_witness:
  "validate_placement one_card_state ONE
     [\<lparr>card_instance_id = ''d'', p_col = 0, p_row = FRONT\<rparr>,
      \<lparr>card_instance_id = ''d'', p_col = 1, p_row = FRONT\<rparr>] = Accepted
   \<and> (\<exists>st. apply_placement one_card_state ONE
          [\<lparr>card_instance_id = ''d'', p_col = 0, p_row = FRONT\<rparr>,
           \<lparr>card_instance_id = ''d'', p_col = 1, p_row = FRONT\<rparr>] = Inl (StopIteration, st)
        \<and> hand (player1 one_card_state) = [0] \<and> hand (player1 st) = []
        \<and> board one_card_state = [] \<and> map fst (board st) = [(0, FRONT, ONE)])"
  using duplicate_card_batch [of one_card_state ONE "''d''" 0 0 1 FRONT FRONT]
  by (simp add: one_card_state_def ex_state_def ex_player_def ex_store_def ex_inst_def
      ex_def_def duskwarden_def ashling_def get_player_state_def set_player_state_def
      find_in_hand_def get_cell_def)

section \<open>Scoring and match conclusion\<close>



lemma not_player:
  "(p \<noteq> ONE) = (p = TWO)" "(p \<noteq> TWO) = (p = ONE)"
  by (cases p; simp)+

lemma resolve_player_state:
  "get_player_state (fst (phase_resolve s)) p =
     (if round_winner (snd (phase_resolve s)) = Some p
      then (get_player_state s p)\<lparr>score := score (get_player_state s p)
              + round_points_awarded (snd (phase_resolve s))\<rparr>
      else get_player_state s p)"
  by (cases p)
     (auto simp: phase_resolve_def Let_def get_player_state_def set_player_state_def not_player
           split: option.splits)

lemma resolve_match_winner:
  "match_winner (fst (phase_resolve s)) =
     check_match_winner (score (player1 (fst (phase_resolve s))))
       (score (player2 (fst (phase_resolve s)))) (current_round s)"
  "result_match_winner (snd (phase_resolve s)) = match_winner (fst (phase_resolve s))"
  "phase (fst (phase_resolve s)) =
     (if match_winner (fst (phase_resolve s)) \<noteq> None then MATCH_OVER else CLEANUP)"
  "current_round (fst (phase_resolve s)) = current_round s"
  "heap (fst (phase_resolve s)) = heap s"
  by (auto simp: phase_resolve_def Let_def set_player_state_def split: option.splits)




text \<open>
  C7. After \<open>phase_resolve\<close>: a player whose score has reached 3 is the match winner
  and the phase is \<open>MATCH_OVER\<close>, whatever the round (player one is looked at first);
  otherwise in round 5 the higher scorer is the match winner, and equal scores leave
  \<open>match_winner\<close> unset (the phase is then \<open>CLEANUP\<close>); before round 5 nobody has
  won yet.
\<close>

theorem match_conclusion:
  fixes s :: GameState
  defines "s' \<equiv> fst (phase_resolve s)"
  shows "(score (player1 s') \<ge> 3 \<longrightarrow> match_winner s' = Some ONE \<and> phase s' = MATCH_OVER)
       \<and> (score (player1 s') < 3 \<and> score (player2 s') \<ge> 3
            \<longrightarrow> match_winner s' = Some TWO \<and> phase s' = MATCH_OVER)
       \<and> (score (player1 s') < 3 \<and> score (player2 s') < 3 \<and> current_round s = 5
            \<and> score (player1 s') > score (player2 s')
            \<longrightarrow> match_winner s' = Some ONE \<and> phase s' = MATCH_OVER)
       \<and> (score (player1 s') < 3 \<and> score (player2 s') < 3 \<and> current_round s = 5
            \<and> score (player2 s') > score (player1 s')
            \<longrightarrow> match_winner s' = Some TWO \<and> phase s' = MATCH_OVER)
       \<and> (score (player1 s') < 3 \<and> score (player2 s') < 3 \<and> current_round s = 5
            \<and> score (player1 s') = score (player2 s')
            \<longrightarrow> match_winner s' = None \<and> phase s' = CLEANUP)
       \<and> (score (player1 s') < 3 \<and> score (player2 s') < 3 \<and> current_round s < 5
            \<longrightarrow> match_winner s' = None \<and> phase s' = CLEANUP)
       \<and> result_match_winner (snd (phase_resolve s)) = match_winner s'"
  unfolding s'_def resolve_match_winner
  by (simp add: check_match_winner_def WIN_SCORE_def ROUNDS_PER_MATCH_def)

theorem match_conclusion_witness:
  "score (player1 (fst (phase_resolve wipe_state))) = 4
   \<and> current_round wipe_state = 3
   \<and> match_winner (fst (phase_resolve wipe_state)) = Some ONE
   \<and> phase (fst (phase_resolve wipe_state)) = MATCH_OVER
   \<and> score (player1 (fst (phase_resolve final_round_state))) = 0
   \<and> score (player2 (fst (phase_resolve final_round_state))) = 0
   \<and> current_round final_round_state = 5
   \<and> match_winner (fst (phase_resolve final_round_state)) = None
   \<and> phase (fst (phase_resolve final_round_state)) = CLEANUP"
proof -
  have w: "score (player1 (fst (phase_resolve wipe_state))) = 4" "current_round wipe_state = 3"
    by code_simp+
  have f: "score (player1 (fst (phase_resolve final_round_state))) = 0"
    "score (player2 (fst (phase_resolve final_round_state))) = 0"
    "current_round final_round_state = 5"
    by code_simp+
  show ?thesis
    using match_conclusion [of wipe_state] match_conclusion [of final_round_state] w f
    by simp
qed

section \<open>Placement: frame and mana\<close>

lemma set_player_state_twice [simp]:
  "set_player_state (set_player_state s p ps) p ps' = set_player_state s p ps'"
  by (simp add: set_player_state_def)

lemma set_player_state_board [simp]:
  "set_player_state s p ps\<lparr>board := b\<rparr> = set_player_state (s\<lparr>board := b\<rparr>) p ps"
  by (simp add: set_player_state_def)

lemma set_player_state_same:
  "set_player_state (s\<lparr>board := board s\<rparr>) p ((get_player_state s p)\<lparr>hand := hand (get_player_state s p)\<rparr>) = s"
  by (simp add: set_player_state_def get_player_state_def)

lemma set_player_state_get [simp]:
  "set_player_state s p (get_player_state s p) = s"
  by (simp add: set_player_state_def get_player_state_def)

lemma list_remove_subset:
  "list_remove h xs a = Inr ys \<Longrightarrow> set ys \<subseteq> set xs"
  by (induction xs arbitrary: ys) (auto split: if_splits sum.splits)

text \<open>The loop of \<open>apply_placement\<close> touches the board and the placing player's hand
  only, whether it returns or raises.\<close>

lemma apply_loop_shape:
  "apply_loop pl batch s t = Inr (s', t') \<or> apply_loop pl batch s t = Inl (e, s') \<Longrightarrow>
   s' = set_player_state (s\<lparr>board := board s'\<rparr>) pl
          ((get_player_state s pl)\<lparr>hand := hand (get_player_state s' pl)\<rparr>)
   \<and> set (hand (get_player_state s' pl)) \<subseteq> set (hand (get_player_state s pl))"
proof (induction batch arbitrary: s t)
  case Nil
  then show ?case by (auto simp: set_player_state_same)
next
  case (Cons p rest)
  show ?case
  proof (cases "find_in_hand (heap s) (hand (get_player_state s pl)) (card_instance_id p)")
    case None
    with Cons.prems show ?thesis by (auto simp: set_player_state_same)
  next
    case (Some a)
    let ?card = "\<lparr>inst = a, current_hp = max_defense (heap s a), col = p_col p, row = p_row p,
            owner = pl, face_down = True, has_attacked = False, position_bonus_attack = 0\<rparr>"
    show ?thesis
    proof (cases "place (board s) ?card")
      case (Inl e1)
      with Some Cons.prems show ?thesis by (auto simp: set_player_state_same)
    next
      case (Inr b')
      show ?thesis
      proof (cases "list_remove (heap s) (hand (get_player_state s pl)) a")
        case (Inl e2)
        with Some Inr Cons.prems show ?thesis
          by (auto simp: set_player_state_def get_player_state_def)
      next
        case hr: (Inr hand')
        let ?s2 = "set_player_state (s\<lparr>board := b'\<rparr>) pl ((get_player_state s pl)\<lparr>hand := hand'\<rparr>)"
        have nxt: "apply_loop pl (p # rest) s t = apply_loop pl rest ?s2 (t + mana_cost (defn (heap s a)))"
          using Some Inr hr by (simp add: Let_def)
        from Cons.prems have "apply_loop pl rest ?s2 (t + mana_cost (defn (heap s a))) = Inr (s', t')
            \<or> apply_loop pl rest ?s2 (t + mana_cost (defn (heap s a))) = Inl (e, s')"
          unfolding nxt .
        from Cons.IH [OF this]
        have ih: "s' = set_player_state (?s2\<lparr>board := board s'\<rparr>) pl
                   ((get_player_state ?s2 pl)\<lparr>hand := hand (get_player_state s' pl)\<rparr>)"
          and sub: "set (hand (get_player_state s' pl)) \<subseteq> set (hand (get_player_state ?s2 pl))"
          by simp_all
        have "set hand' \<subseteq> set (hand (get_player_state s pl))"
          using list_remove_subset [OF hr] .
        with sub have "set (hand (get_player_state s' pl)) \<subseteq> set (hand (get_player_state s pl))"
          by auto
        moreover have "s' = set_player_state (s\<lparr>board := board s'\<rparr>) pl
          ((get_player_state s pl)\<lparr>hand := hand (get_player_state s' pl)\<rparr>)"
          by (subst ih) (simp add: set_player_state_def get_player_state_def)
        ultimately show ?thesis by simp
      qed
    qed
  qed
qed


lemma apply_loop_player:
  assumes "apply_loop pl batch s t = Inr (s', t') \<or> apply_loop pl batch s t = Inl (e, s')"
  shows "get_player_state s' q =
           (if q = pl then (get_player_state s pl)\<lparr>hand := hand (get_player_state s' pl)\<rparr>
            else get_player_state s q)"
proof -
  from apply_loop_shape [OF assms]
  have eq: "s' = set_player_state (s\<lparr>board := board s'\<rparr>) pl
          ((get_player_state s pl)\<lparr>hand := hand (get_player_state s' pl)\<rparr>)" by simp
  show ?thesis
    by (subst eq, cases pl; cases q) (simp_all add: set_player_state_def get_player_state_def)
qed


text \<open>With distinct instance ids in the hand, a batch that both loops get through costs
  the same in both: each entry finds the same card in the shrinking hand as in the full
  hand.\<close>

lemma find_in_hand_sub:
  assumes inj: "inj_on (\<lambda>a. instance_id (h a)) (set H)"
    and sub: "set xs \<subseteq> set H"
    and fx: "find_in_hand h xs cid = Some a"
    and fH: "find_in_hand h H cid = Some a0"
  shows "a = a0"
proof -
  from find_in_hand_Some [OF fx] sub have "a \<in> set H" "instance_id (h a) = cid" by auto
  moreover from find_in_hand_Some [OF fH] have "a0 \<in> set H" "instance_id (h a0) = cid" by auto
  ultimately show ?thesis using inj by (auto dest: inj_onD)
qed

lemma apply_total_validate_total:
  assumes inj: "inj_on (\<lambda>a. instance_id (h a)) (set (hand ps0))"
  shows "apply_loop pl batch s t = Inr (s', t') \<Longrightarrow> heap s = h
         \<Longrightarrow> set (hand (get_player_state s pl)) \<subseteq> set (hand ps0)
         \<Longrightarrow> validate_loop h ps0 b pl batch v placed = Inr cost
         \<Longrightarrow> t' - t = cost - v"
proof (induction batch arbitrary: s t v placed)
  case Nil
  then show ?case by simp
next
  case (Cons p rest)
  from Cons.prems(4) obtain a0 where f0: "find_in_hand h (hand ps0) (card_instance_id p) = Some a0"
    by (cases "find_in_hand h (hand ps0) (card_instance_id p)") auto
  from Cons.prems(4) f0
  have v': "validate_loop h ps0 b pl rest (v + mana_cost (defn (h a0)))
              (insert (p_col p, p_row p) placed) = Inr cost"
    by (auto split: if_splits)
  from Cons.prems(1) obtain a where fa: "find_in_hand (heap s) (hand (get_player_state s pl)) (card_instance_id p) = Some a"
    by (cases "find_in_hand (heap s) (hand (get_player_state s pl)) (card_instance_id p)")
       (auto simp: Let_def)
  have aa: "a = a0"
    using find_in_hand_sub [OF inj Cons.prems(3)] fa f0 Cons.prems(2) by simp
  let ?card = "\<lparr>inst = a, current_hp = max_defense (heap s a), col = p_col p, row = p_row p,
            owner = pl, face_down = True, has_attacked = False, position_bonus_attack = 0\<rparr>"
  from Cons.prems(1) fa obtain b' where pb: "place (board s) ?card = Inr b'"
    by (cases "place (board s) ?card") (auto simp: Let_def)
  from Cons.prems(1) fa pb obtain hand' where hr: "list_remove (heap s) (hand (get_player_state s pl)) a = Inr hand'"
    by (cases "list_remove (heap s) (hand (get_player_state s pl)) a") (auto simp: Let_def)
  let ?s2 = "set_player_state (s\<lparr>board := b'\<rparr>) pl ((get_player_state s pl)\<lparr>hand := hand'\<rparr>)"
  have nxt: "apply_loop pl rest ?s2 (t + mana_cost (defn (heap s a))) = Inr (s', t')"
    using Cons.prems(1) apply_loop_next [OF fa pb hr] by simp
  have sub2: "set (hand (get_player_state ?s2 pl)) \<subseteq> set (hand ps0)"
    using list_remove_subset [OF hr] Cons.prems(3) by auto
  have "t' - (t + mana_cost (defn (heap s a))) = cost - (v + mana_cost (defn (h a0)))"
    using Cons.IH [OF nxt _ sub2 v'] Cons.prems(2) by simp
  then show ?case using aa Cons.prems(2) by simp
qed

lemma draw_player_state:
  "get_player_state (phase_draw s n) p = draw_player n (get_player_state s p)"
  by (simp add: phase_draw_def get_player_state_def)

lemma mana_player_state:
  "get_player_state (phase_mana s) p = mana_player (get_player_state s p)"
  by (simp add: phase_mana_def get_player_state_def)

lemma reveal_player_state:
  "get_player_state (phase_reveal s) p = get_player_state s p"
  by (simp add: phase_reveal_def get_player_state_def)

lemma cleanup_player_state:
  "phase_cleanup s = Inr s' \<Longrightarrow>
   get_player_state s' p = clear_debt (return_to_hand (board s) (get_player_state s p))"
  by (auto simp: phase_cleanup_def Let_def get_player_state_def split: if_splits)

lemma apply_placement_Inl:
  "apply_placement s pl batch = Inl (e, s') \<longleftrightarrow> apply_loop pl batch s 0 = Inl (e, s')"
  by (cases "apply_loop pl batch s 0") (auto simp: apply_placement_def Let_def)

lemma apply_placement_Inr:
  "apply_placement s pl batch = Inr s' \<Longrightarrow>
   \<exists>s1 t1. apply_loop pl batch s 0 = Inr (s1, t1)
     \<and> s' = set_player_state s1 pl
          (if t1 > mana (get_player_state s1 pl)
           then (get_player_state s1 pl)\<lparr>mana := - (t1 - mana (get_player_state s1 pl)),
                  veil_surge_used := True\<rparr>
           else (get_player_state s1 pl)\<lparr>mana := mana (get_player_state s1 pl) - t1\<rparr>)"
proof (cases "apply_loop pl batch s 0")
  case (Inl x)
  moreover assume "apply_placement s pl batch = Inr s'"
  ultimately show ?thesis by (simp add: apply_placement_def)
next
  case (Inr x)
  obtain s1 t1 where x: "x = (s1, t1)" by (cases x)
  assume "apply_placement s pl batch = Inr s'"
  with Inr x show ?thesis
    by (intro exI [of _ s1] exI [of _ t1]) (simp add: apply_placement_def Let_def)
qed

lemma step_veil_surge_used:
  assumes "step s s'" and "veil_surge_used (get_player_state s p)"
  shows "veil_surge_used (get_player_state s' p)"
  using assms
proof (cases rule: step.cases)
  case (step_draw n)
  with assms(2) show ?thesis
    by (simp add: draw_player_state draw_player_def Let_def)
next
  case step_mana
  with assms(2) show ?thesis
    by (simp add: mana_player_state mana_player_def)
next
  case (step_place pl batch)
  from apply_placement_Inr [OF step_place(1)] obtain s1 t1
    where l: "apply_loop pl batch s 0 = Inr (s1, t1)"
      and s': "s' = set_player_state s1 pl
        (if t1 > mana (get_player_state s1 pl)
         then (get_player_state s1 pl)\<lparr>mana := - (t1 - mana (get_player_state s1 pl)), veil_surge_used := True\<rparr>
         else (get_player_state s1 pl)\<lparr>mana := mana (get_player_state s1 pl) - t1\<rparr>)"
    by blast
  have g: "veil_surge_used (get_player_state s1 p)"
    using apply_loop_player [of pl batch s 0 s1 t1 undefined p] l assms(2) by auto
  with s' show ?thesis by (cases "p = pl") auto
next
  case (step_place_raise pl batch e)
  then have l: "apply_loop pl batch s 0 = Inl (e, s')"
    by (simp add: apply_placement_Inl)
  show ?thesis
    using apply_loop_player [of pl batch s 0 s' 0 e p] l assms(2) by auto
next
  case step_reveal
  with assms(2) show ?thesis by (simp add: reveal_player_state)
next
  case step_resolve
  with assms(2) show ?thesis by (simp add: resolve_player_state)
next
  case step_cleanup
  with assms(2) show ?thesis
    by (simp add: cleanup_player_state clear_debt_def return_to_hand_def)
qed

lemma steps_veil_surge_used:
  assumes "step\<^sup>*\<^sup>* s s'" and "veil_surge_used (get_player_state s p)"
  shows "veil_surge_used (get_player_state s' p)"
  using assms by (induction rule: rtranclp_induct) (auto intro: step_veil_surge_used)

text \<open>
  C5. Let a batch pass the per-entry checks of \<open>validate_placement\<close> with total cost
  \<open>cost\<close>, more than the player's mana. Then the batch is rejected (for insufficient
  mana) exactly when Veil Surge is already used or the overdraft exceeds 3, and accepted
  otherwise. When the batch is applied, the player's mana becomes the negated overdraft
  and \<open>veil_surge_used\<close> is set; and from then on, through any further phase calls, every
  batch of that player that costs more than the mana at hand is rejected. (Instance ids
  in the hand are distinct, so that both loops see the same cards.)
\<close>

theorem veil_surge_rule:
  assumes val: "validate_loop (heap s) (get_player_state s pl) (board s) pl batch 0 {} = Inr cost"
    and over: "cost > mana (get_player_state s pl)"
    and ids: "distinct (map (\<lambda>a. instance_id (heap s a)) (hand (get_player_state s pl)))"
  shows "(validate_placement s pl batch = Rejected (Insufficient_mana cost (mana (get_player_state s pl)))
            \<longleftrightarrow> veil_surge_used (get_player_state s pl) \<or> cost - mana (get_player_state s pl) > 3)
       \<and> (validate_placement s pl batch = Accepted
            \<longleftrightarrow> \<not> veil_surge_used (get_player_state s pl) \<and> cost - mana (get_player_state s pl) \<le> 3)
       \<and> (\<forall>s'. apply_placement s pl batch = Inr s' \<longrightarrow>
             mana (get_player_state s' pl) = - (cost - mana (get_player_state s pl))
           \<and> veil_surge_used (get_player_state s' pl)
           \<and> (\<forall>s'' batch' cost'.
                 step\<^sup>*\<^sup>* s' s''
               \<and> validate_loop (heap s'') (get_player_state s'' pl) (board s'') pl batch' 0 {} = Inr cost'
               \<and> cost' > mana (get_player_state s'' pl)
               \<longrightarrow> validate_placement s'' pl batch'
                     = Rejected (Insufficient_mana cost' (mana (get_player_state s'' pl)))))"
proof (intro conjI allI impI)
  show "validate_placement s pl batch = Rejected (Insufficient_mana cost (mana (get_player_state s pl)))
            \<longleftrightarrow> veil_surge_used (get_player_state s pl) \<or> cost - mana (get_player_state s pl) > 3"
    using val over by (simp add: validate_placement_def Let_def VEIL_SURGE_MAX_def)
  show "validate_placement s pl batch = Accepted
            \<longleftrightarrow> \<not> veil_surge_used (get_player_state s pl) \<and> cost - mana (get_player_state s pl) \<le> 3"
    using val over by (auto simp: validate_placement_def Let_def VEIL_SURGE_MAX_def)
next
  fix s' assume ap: "apply_placement s pl batch = Inr s'"
  from apply_placement_Inr [OF ap] obtain s1 t1
    where l: "apply_loop pl batch s 0 = Inr (s1, t1)"
      and s': "s' = set_player_state s1 pl
        (if t1 > mana (get_player_state s1 pl)
         then (get_player_state s1 pl)\<lparr>mana := - (t1 - mana (get_player_state s1 pl)), veil_surge_used := True\<rparr>
         else (get_player_state s1 pl)\<lparr>mana := mana (get_player_state s1 pl) - t1\<rparr>)"
    by blast
  have inj: "inj_on (\<lambda>a. instance_id (heap s a)) (set (hand (get_player_state s pl)))"
    using ids by (simp add: distinct_map)
  have tot: "t1 = cost"
    using apply_total_validate_total [OF inj l refl subset_refl val] by simp
  have ps1: "get_player_state s1 pl = (get_player_state s pl)\<lparr>hand := hand (get_player_state s1 pl)\<rparr>"
    using apply_loop_player [of pl batch s 0 s1 t1 undefined pl] l by simp
  have m1: "mana (get_player_state s1 pl) = mana (get_player_state s pl)"
    by (subst ps1) simp
  show "mana (get_player_state s' pl) = - (cost - mana (get_player_state s pl))"
    using s' tot m1 over by simp
  show used: "veil_surge_used (get_player_state s' pl)"
    using s' tot m1 over by simp
  fix s'' batch' cost'
  assume a: "step\<^sup>*\<^sup>* s' s''
     \<and> validate_loop (heap s'') (get_player_state s'' pl) (board s'') pl batch' 0 {} = Inr cost'
     \<and> cost' > mana (get_player_state s'' pl)"
  then have "veil_surge_used (get_player_state s'' pl)"
    using steps_veil_surge_used used by blast
  with a show "validate_placement s'' pl batch'
       = Rejected (Insufficient_mana cost' (mana (get_player_state s'' pl)))"
    by (simp add: validate_placement_def Let_def)
qed

theorem veil_surge_rule_witness:
  "mana (player1 surge_state) = 3
   \<and> validate_loop (heap surge_state) (player1 surge_state) (board surge_state) ONE surge_batch 0 {}
       = Inr 5
   \<and> validate_placement surge_state ONE surge_batch = Accepted
   \<and> \<not> isl (apply_placement surge_state ONE surge_batch)
   \<and> mana (player1 (projr (apply_placement surge_state ONE surge_batch))) = - 2
   \<and> veil_surge_used (player1 (projr (apply_placement surge_state ONE surge_batch)))
   \<and> validate_placement (phase_mana (projr (apply_placement surge_state ONE surge_batch))) ONE
        second_batch = Rejected (Insufficient_mana 3 (- 1))"
proof -
  let ?s' = "projr (apply_placement surge_state ONE surge_batch)"
  have g: "get_player_state surge_state ONE = player1 surge_state"
    "\<And>s. get_player_state s ONE = player1 s"
    by (simp_all add: get_player_state_def)
  have m: "mana (player1 surge_state) = 3" by code_simp
  have val: "validate_loop (heap surge_state) (get_player_state surge_state ONE)
               (board surge_state) ONE surge_batch 0 {} = Inr 5"
    by code_simp
  have over: "5 > mana (get_player_state surge_state ONE)" by code_simp
  have ids: "distinct (map (\<lambda>a. instance_id (heap surge_state a))
               (hand (get_player_state surge_state ONE)))"
    by code_simp
  have fresh: "\<not> veil_surge_used (get_player_state surge_state ONE)" by code_simp
  have nl: "\<not> isl (apply_placement surge_state ONE surge_batch)" by code_simp
  then have ap: "apply_placement surge_state ONE surge_batch = Inr ?s'" by simp
  have st: "step\<^sup>*\<^sup>* ?s' (phase_mana ?s')"
    by (rule r_into_rtranclp) (rule step_mana)
  have val2: "validate_loop (heap (phase_mana ?s')) (get_player_state (phase_mana ?s') ONE)
               (board (phase_mana ?s')) ONE second_batch 0 {} = Inr 3"
    by code_simp
  have m2: "mana (get_player_state (phase_mana ?s') ONE) = - 1" by code_simp
  have lt: "3 > mana (get_player_state (phase_mana ?s') ONE)" by (simp add: m2)
  note rule = veil_surge_rule [OF val over ids]
  from rule fresh m have acc: "validate_placement surge_state ONE surge_batch = Accepted"
    by (simp add: g)
  from rule ap
  have after: "mana (get_player_state ?s' ONE) = - (5 - mana (get_player_state surge_state ONE))"
    "veil_surge_used (get_player_state ?s' ONE)"
    and later: "\<forall>s'' batch' cost'.
       step\<^sup>*\<^sup>* ?s' s''
       \<and> validate_loop (heap s'') (get_player_state s'' ONE) (board s'') ONE batch' 0 {} = Inr cost'
       \<and> cost' > mana (get_player_state s'' ONE)
       \<longrightarrow> validate_placement s'' ONE batch'
             = Rejected (Insufficient_mana cost' (mana (get_player_state s'' ONE)))"
    by blast+
  from later st val2 lt
  have rej: "validate_placement (phase_mana ?s') ONE second_batch
       = Rejected (Insufficient_mana 3 (mana (get_player_state (phase_mana ?s') ONE)))"
    by blast
  show ?thesis
    using m val acc nl after rej m2 by (simp add: g)
qed

section \<open>Targeting and back-row protection\<close>

lemma sort_key_head_in:
  "sort_key f xs = e # rest \<Longrightarrow> e \<in> set xs"
  by (metis list.set_intros(1) set_sort)

lemma find_target_sound:
  assumes ft: "find_target attacker b = Some (k, t)"
  shows "(k, t) \<in> set b \<and> is_alive t \<and> is_targetable b t"
proof -
  define opp where "opp = (if owner attacker = ONE then TWO else ONE)"
  define enemies where
    "enemies = filter (\<lambda>(k, c). is_alive c \<and> is_targetable b c) (cards_for b opp)"
  define priority3 where
    "priority3 = (case sort_key (target_key (col attacker)) enemies of
                    [] \<Rightarrow> None | e # _ \<Rightarrow> Some e)"
  define priority2 where
    "priority2 = (case get_cell b (col attacker) BACK opp of
                    None \<Rightarrow> priority3
                  | Some bd \<Rightarrow>
                      if is_alive bd \<and> is_targetable b bd
                      then Some ((col attacker, BACK, opp), bd) else priority3)"
  have unfold: "find_target attacker b =
      (case get_cell b (col attacker) FRONT opp of
         None \<Rightarrow> priority2
       | Some d \<Rightarrow>
           if is_alive d \<and> is_targetable b d
           then Some ((col attacker, FRONT, opp), d) else priority2)"
    unfolding find_target_def Let_def priority2_def priority3_def enemies_def opp_def ..
  have r3: "?thesis" if "priority3 = Some (k, t)"
  proof -
    from that obtain rest where "sort_key (target_key (col attacker)) enemies = (k, t) # rest"
      by (auto simp: priority3_def split: list.splits)
    then have "(k, t) \<in> set enemies" by (rule sort_key_head_in)
    then show ?thesis by (auto simp: enemies_def cards_for_def)
  qed
  have r2: "?thesis" if "priority2 = Some (k, t)"
    using that r3
    by (auto simp: priority2_def get_cell_def split: option.splits if_splits dest: map_of_SomeD)
  from ft show ?thesis
    unfolding unfold using r2
    by (auto simp: get_cell_def split: option.splits if_splits dest: map_of_SomeD)
qed

lemma update_card_keys [simp]: "map fst (update_card b k f) = map fst b"
  by (induction b) (auto simp: update_card_def)

lemma strike_keys: "map fst (l_board (strike h ak attacker tk target ls)) = map fst (l_board ls)"
  by (simp add: strike_def Let_def)

lemma attack_step_keys: "map fst (l_board (attack_step h ak ls)) = map fst (l_board ls)"
  by (auto simp: attack_step_def strike_keys split: option.splits)

lemma attack_loop_keys: "map fst (l_board (attack_loop h ks ls)) = map fst (l_board ls)"
  by (induction ks arbitrary: ls) (simp_all add: attack_step_keys)

lemma get_cell_None_keys:
  "get_cell b cl rw ow = None \<longleftrightarrow> (cl, rw, ow) \<notin> set (map fst b)"
  by (simp add: get_cell_def map_of_eq_None_iff)

text \<open>
  C4 (as stated, refuted). The claim has a back-row card protected only while its
  front-row cell holds a live card. In the round played from \<open>protect_state\<close>, after
  the Ashling in player two's front row is destroyed it stays on the board, and the
  live Duskwarden behind it is still untargetable: player one's card in column 1 finds
  no target at all.
\<close>

theorem dead_front_card_protects_counterexample:
  "map fst dead_front_board = [(0, FRONT, ONE), (1, FRONT, ONE), (0, FRONT, TWO), (0, BACK, TWO)]
   \<and> current_hp (the (get_cell dead_front_board 0 FRONT TWO)) = - 5
   \<and> \<not> is_alive (the (get_cell dead_front_board 0 FRONT TWO))
   \<and> row (the (get_cell dead_front_board 0 BACK TWO)) = BACK
   \<and> is_alive (the (get_cell dead_front_board 0 BACK TWO))
   \<and> \<not> is_targetable dead_front_board (the (get_cell dead_front_board 0 BACK TWO))
   \<and> find_target (the (get_cell dead_front_board 1 FRONT ONE)) dead_front_board = None"
  by code_simp

text \<open>
  C4 (amended). A back-row card is protected (untargetable) exactly when its
  same-column front-row cell on its own side is occupied, by a live card or by one
  already destroyed in the round; front-row cards are always targetable. Whatever
  \<open>find_target\<close> selects is on the board, alive and targetable, so a back-row card
  with an occupied same-column front-row cell is never selected. The attack loop
  removes nothing from the board: a cell occupied at the start of the loop stays
  occupied until the loop ends.
\<close>

theorem back_row_protection:
  "(is_targetable b c \<longleftrightarrow> \<not> (row c = BACK \<and> get_cell b (col c) FRONT (owner c) \<noteq> None))
   \<and> (row c = FRONT \<longrightarrow> is_targetable b c)
   \<and> (find_target attacker b = Some (k, t)
        \<longrightarrow> (k, t) \<in> set b \<and> is_alive t \<and> is_targetable b t)
   \<and> (row t = BACK \<and> get_cell b (col t) FRONT (owner t) \<noteq> None
        \<longrightarrow> find_target attacker b \<noteq> Some (k, t))
   \<and> (get_cell (l_board (attack_loop h ks ls)) cl rw ow = None
        \<longleftrightarrow> get_cell (l_board ls) cl rw ow = None)"
proof -
  have tg: "is_targetable b c \<longleftrightarrow> \<not> (row c = BACK \<and> get_cell b (col c) FRONT (owner c) \<noteq> None)"
    by (simp add: is_targetable_def)
  have front: "row c = FRONT \<longrightarrow> is_targetable b c"
    by (simp add: is_targetable_def)
  have sound: "find_target attacker b = Some (k, t)
        \<longrightarrow> (k, t) \<in> set b \<and> is_alive t \<and> is_targetable b t"
    using find_target_sound by blast
  have never: "row t = BACK \<and> get_cell b (col t) FRONT (owner t) \<noteq> None
        \<longrightarrow> find_target attacker b \<noteq> Some (k, t)"
  proof (intro impI notI)
    assume blocked: "row t = BACK \<and> get_cell b (col t) FRONT (owner t) \<noteq> None"
      and "find_target attacker b = Some (k, t)"
    then have "is_targetable b t" using find_target_sound by blast
    with blocked show False by (simp add: is_targetable_def)
  qed
  have stay: "get_cell (l_board (attack_loop h ks ls)) cl rw ow = None
        \<longleftrightarrow> get_cell (l_board ls) cl rw ow = None"
    by (simp only: get_cell_None_keys attack_loop_keys)
  from tg front sound never stay show ?thesis by blast
qed

theorem back_row_protection_witness:
  "row (the (get_cell dead_front_board 0 BACK TWO)) = BACK
   \<and> get_cell dead_front_board 0 FRONT TWO \<noteq> None
   \<and> \<not> is_targetable dead_front_board (the (get_cell dead_front_board 0 BACK TWO))
   \<and> find_target (the (get_cell dead_front_board 0 FRONT ONE)) dead_front_board
       \<noteq> Some ((0, BACK, TWO), the (get_cell dead_front_board 0 BACK TWO))"
proof -
  have a: "row (the (get_cell dead_front_board 0 BACK TWO)) = BACK"
    "col (the (get_cell dead_front_board 0 BACK TWO)) = 0"
    "owner (the (get_cell dead_front_board 0 BACK TWO)) = TWO"
    "get_cell dead_front_board 0 FRONT TWO \<noteq> None"
    by code_simp+
  show ?thesis
    using back_row_protection [of dead_front_board "the (get_cell dead_front_board 0 BACK TWO)"
        "the (get_cell dead_front_board 0 FRONT ONE)" "(0, BACK, TWO)"
        "the (get_cell dead_front_board 0 BACK TWO)"] a
    by simp
qed

section \<open>Damage\<close>












lemma erase_hp_update [simp]:
  "erase_hp (update_card b k (\<lambda>c. c\<lparr>current_hp := g c\<rparr>)) = erase_hp b"
  by (induction b) (auto simp: erase_hp_def update_card_def)














section \<open>Destroyed cards\<close>
















subsection \<open>What a phase can reach\<close>












subsection \<open>Placement moves instances from the hand to the board\<close>













text \<open>
  C3 (the code departs from the claim). In the round played from \<open>one_card_state\<close>
  the Ashling deals 3 damage and is then destroyed. Cleanup looks for destroyed cards by
  name in the decks and hands, where the Ashling no longer is since its placement: its
  XP stays 0 instead of growing by \<open>3 div 2 = 1\<close>.
\<close>

theorem destroyed_card_no_xp:
  "\<not> isl (apply_placement one_card_state ONE [\<lparr>card_instance_id = ''d'', p_col = 0, p_row = FRONT\<rparr>])
   \<and> \<not> isl (apply_placement
       (projr (apply_placement one_card_state ONE
          [\<lparr>card_instance_id = ''d'', p_col = 0, p_row = FRONT\<rparr>]))
       TWO [\<lparr>card_instance_id = ''a'', p_col = 0, p_row = FRONT\<rparr>])
   \<and> \<not> isl (phase_cleanup (fst (phase_resolve xp_revealed)))
   \<and> map attacker_name (events (snd (phase_resolve xp_revealed))) = [''Ashling'', ''Duskwarden'']
   \<and> map damage_dealt (events (snd (phase_resolve xp_revealed))) = [3, 10]
   \<and> map defender_destroyed (events (snd (phase_resolve xp_revealed))) = [False, True]
   \<and> name (defn (heap xp_revealed 1)) = ''Ashling''
   \<and> xp (heap xp_revealed 1) = 0
   \<and> level (heap xp_cleaned 1) = level (heap xp_revealed 1)
   \<and> xp (heap xp_cleaned 1) = 0
   \<and> xp (heap xp_cleaned 1) \<noteq> xp (heap xp_revealed 1) + 3 div 2
   \<and> pool xp_cleaned = [0]"
  by code_simp



end
